theory Spec2Isabelle
  imports Main
begin

section \<open>JavaScript values and objects\<close>

text \<open>
  The vat loader (\<^verbatim>\<open>makeVatLoader\<close>) handles option bags, bundles and source descriptors
  as plain JavaScript values.  The values that can occur there are modelled by one
  datatype.  A number is a safe integer (of magnitude below \<open>2^53\<close>), which JavaScript
  prints with all its decimal digits; a function is identified by its source text, which is what
  \<^verbatim>\<open>String(f)\<close> yields; \<open>JConsole vatID\<close> is the console object that
  \<^verbatim>\<open>makeSourcedConsole(vatID)\<close> returns.

  An object is the list of its properties in insertion order.  A later pair with the same
  key stands for an overwrite, so that every list denotes an object: reading a property
  takes the last pair for the key.
\<close>

datatype jsval =
    JUndefined
  | JNull
  | JBool bool
  | JNum int
  | JStr string
  | JObj "(string \<times> jsval) list"
  | JFun string
  | JConsole string

type_synonym jsobj = "(string \<times> jsval) list"

text \<open>\<^verbatim>\<open>!!v\<close>: the falsy values are undefined, null, false, 0 and the empty string.\<close>

fun truthy :: "jsval \<Rightarrow> bool" where
  "truthy JUndefined = False"
| "truthy JNull = False"
| "truthy (JBool b) = b"
| "truthy (JNum n) = (n \<noteq> 0)"
| "truthy (JStr s) = (s \<noteq> [])"
| "truthy (JObj ps) = True"
| "truthy (JFun f) = True"
| "truthy (JConsole v) = True"

text \<open>\<^verbatim>\<open>typeof v\<close>; note that \<^verbatim>\<open>typeof null\<close> is \<^verbatim>\<open>'object'\<close>.\<close>

fun typeof :: "jsval \<Rightarrow> string" where
  "typeof JUndefined = ''undefined''"
| "typeof JNull = ''object''"
| "typeof (JBool b) = ''boolean''"
| "typeof (JNum n) = ''number''"
| "typeof (JStr s) = ''string''"
| "typeof (JObj ps) = ''object''"
| "typeof (JFun f) = ''function''"
| "typeof (JConsole v) = ''object''"

definition digit_char :: "nat \<Rightarrow> char" where
  "digit_char d = ''0123456789'' ! (d mod 10)"

fun show_nat :: "nat \<Rightarrow> string" where
  "show_nat n = (if n < 10 then [digit_char n] else show_nat (n div 10) @ [digit_char n])"

declare show_nat.simps [simp del]

text \<open>\<^verbatim>\<open>String(v)\<close>, as a template literal applies it.\<close>

fun to_string :: "jsval \<Rightarrow> string" where
  "to_string JUndefined = ''undefined''"
| "to_string JNull = ''null''"
| "to_string (JBool b) = (if b then ''true'' else ''false'')"
| "to_string (JNum n) = (if n < 0 then ''-'' @ show_nat (nat (- n)) else show_nat (nat n))"
| "to_string (JStr s) = s"
| "to_string (JObj ps) = ''[object Object]''"
| "to_string (JFun f) = f"
| "to_string (JConsole v) = ''[object Object]''"

text \<open>
  \<^verbatim>\<open>s.trim()\<close>.  A string is the sequence of its UTF-8 bytes.  The white space that
  \<^verbatim>\<open>trim\<close> removes is the white space and the line terminators of JavaScript: the
  characters U+0009 to U+000D, U+0020, U+00A0, U+1680, U+2000 to U+200A, U+2028, U+2029,
  U+202F, U+205F, U+3000 and U+FEFF, each listed here by its encoding.
\<close>

definition white_space :: "string list" where
  "white_space =
     [[CHR 0x09], [CHR 0x0A], [CHR 0x0B], [CHR 0x0C], [CHR 0x0D], [CHR 0x20],
      [CHR 0xC2, CHR 0xA0],
      [CHR 0xE1, CHR 0x9A, CHR 0x80],
      [CHR 0xE2, CHR 0x80, CHR 0x80], [CHR 0xE2, CHR 0x80, CHR 0x81],
      [CHR 0xE2, CHR 0x80, CHR 0x82], [CHR 0xE2, CHR 0x80, CHR 0x83],
      [CHR 0xE2, CHR 0x80, CHR 0x84], [CHR 0xE2, CHR 0x80, CHR 0x85],
      [CHR 0xE2, CHR 0x80, CHR 0x86], [CHR 0xE2, CHR 0x80, CHR 0x87],
      [CHR 0xE2, CHR 0x80, CHR 0x88], [CHR 0xE2, CHR 0x80, CHR 0x89],
      [CHR 0xE2, CHR 0x80, CHR 0x8A],
      [CHR 0xE2, CHR 0x80, CHR 0xA8], [CHR 0xE2, CHR 0x80, CHR 0xA9],
      [CHR 0xE2, CHR 0x80, CHR 0xAF],
      [CHR 0xE2, CHR 0x81, CHR 0x9F],
      [CHR 0xE3, CHR 0x80, CHR 0x80],
      [CHR 0xEF, CHR 0xBB, CHR 0xBF]]"

text \<open>Removes from the front of \<open>s\<close> every leading occurrence of one of the sequences \<open>ws\<close>.\<close>

function strip :: "string list \<Rightarrow> string \<Rightarrow> string" where
  "strip ws s =
     (case find (\<lambda>w. w \<noteq> [] \<and> take (length w) s = w) ws of
        None \<Rightarrow> s
      | Some w \<Rightarrow> strip ws (drop (length w) s))"
  by pat_completeness auto
termination
proof (relation "measure (\<lambda>(ws, s). length s)")
  show "wf (measure (\<lambda>(ws, s). length s))"
    by simp
next
  fix ws :: "string list" and s w :: string
  assume "find (\<lambda>w. w \<noteq> [] \<and> take (length w) s = w) ws = Some w"
  then have "w \<noteq> []" and "take (length w) s = w"
    by (auto simp: find_Some_iff)
  then have "s \<noteq> []"
    by auto
  with \<open>w \<noteq> []\<close> show "((ws, drop (length w) s), (ws, s)) \<in> measure (\<lambda>(ws, s). length s)"
    by (cases w) auto
qed

declare strip.simps [simp del]

definition trim :: "string \<Rightarrow> string" where
  "trim s = rev (strip (map rev white_space) (rev (strip white_space s)))"

text \<open>\<^verbatim>\<open>a || b\<close>.\<close>

definition js_or :: "jsval \<Rightarrow> jsval \<Rightarrow> jsval" where
  "js_or a b = (if truthy a then a else b)"

text \<open>\<^verbatim>\<open>Object.keys(obj)\<close>, \<^verbatim>\<open>key in obj\<close> and \<^verbatim>\<open>obj[key]\<close> (undefined when absent).\<close>

definition keys :: "jsobj \<Rightarrow> string list" where
  "keys obj = map fst obj"

definition has_prop :: "string \<Rightarrow> jsobj \<Rightarrow> bool" where
  "has_prop k obj = (k \<in> set (keys obj))"

definition get_prop :: "jsobj \<Rightarrow> string \<Rightarrow> jsval" where
  "get_prop obj k = (case map_of (rev obj) k of None \<Rightarrow> JUndefined | Some v \<Rightarrow> v)"

text \<open>
  \<^verbatim>\<open>obj[key] = v\<close>, as an object literal or a spread performs it: an existing property
  keeps its position and takes the new value, a new property goes to the end.
\<close>

definition set_prop :: "string \<Rightarrow> jsval \<Rightarrow> jsobj \<Rightarrow> jsobj" where
  "set_prop k v obj =
     (if has_prop k obj then map (\<lambda>p. if fst p = k then (k, v) else p) obj
      else obj @ [(k, v)])"

text \<open>\<^verbatim>\<open>{ ...dst, ...src }\<close>: the properties of \<open>src\<close> are written into \<open>dst\<close> in order.\<close>

fun spread :: "jsobj \<Rightarrow> jsobj \<Rightarrow> jsobj" where
  "spread [] dst = dst"
| "spread (p # src) dst = spread src (set_prop (fst p) (snd p) dst)"

text \<open>A destructuring default \<^verbatim>\<open>{ x = d } = obj\<close> applies when the property is undefined.\<close>

definition with_default :: "jsval \<Rightarrow> jsval \<Rightarrow> jsval" where
  "with_default v d = (if v = JUndefined then d else v)"

section \<open>The vat loader\<close>

text \<open>
  A \<^verbatim>\<open>SourceOfBundle\<close>: each of the three properties is present (\<open>Some\<close>) or absent.
  \<^verbatim>\<open>bundleName\<close> and \<^verbatim>\<open>bundleID\<close> are strings, as the source documents them.
  (The field names carry the prefix \<open>src_\<close> because \<open>bundle\<close> is a keyword of Isabelle.)
\<close>

record sourceOfBundle =
  src_bundle :: "jsval option"
  src_bundleName :: "string option"
  src_bundleID :: "string option"

text \<open>
  The failures of the loader.  The source raises them with \<^verbatim>\<open>assert\<close>; each constructor
  stands for one assertion:
  \<^item> \<open>PreconditionError\<close>: \<^verbatim>\<open>initializeKernel did not set vatAdminRootKref\<close>;
  \<^item> \<open>InvalidSourceError\<close>: \<^verbatim>\<open>broken source\<close>;
  \<^item> \<open>UnknownBundleError msg\<close>: \<^verbatim>\<open>unknown bundle name ...\<close> or \<^verbatim>\<open>unknown bundleID ...\<close>;
  \<^item> \<open>UnknownSourceDescriptor\<close>: the final \<^verbatim>\<open>assert.fail\<close> of the descriptor chain;
  \<^item> \<open>BundleTypeError\<close>: \<^verbatim>\<open>vat creation requires bundle\<close>;
  \<^item> \<open>InvalidOptionError name\<close>: raised by \<^verbatim>\<open>assertKnownOptions\<close>;
  \<^item> \<open>ManagerFactoryError reason\<close>: the promise of the manager factory was rejected.
\<close>

datatype error =
    PreconditionError
  | InvalidSourceError
  | UnknownBundleError string
  | UnknownSourceDescriptor
  | BundleTypeError
  | InvalidOptionError string
  | ManagerFactoryError string

datatype 't handler = VatSyscallHandler string 't

text \<open>
  The loader changes nothing itself: everything it does to the kernel goes through the
  collaborators it was built with.  The state is therefore the sequence of collaborator
  calls made so far, one event per call, in the order of the calls.
\<close>

datatype 't event =
    GetNamedBundle string
  | GetBundle string
  | ProvideVatSlogger string bool string jsval jsval jsval
  | MakeSourcedConsole string
  | BuildVatSyscallHandler string 't
  | SlogStartup string
  | VatManagerFactory string jsobj "'t handler"
  | SlogFinish string
  | Panic string error

text \<open>
  The argument \<^verbatim>\<open>stuff\<close> of \<^verbatim>\<open>makeVatLoader\<close>: the admin-level overrides, the
  admin capability, and what the collaborators answer (the keeper's two lookups, the
  \<^verbatim>\<open>starting\<close> flag of the slogger, the outcome of the manager factory).
\<close>

record ('t, 'm) stuff =
  overrideVatManagerOptions :: jsobj
  vatAdminRootKref :: jsval
  getNamedBundle :: "string \<Rightarrow> jsval"
  getBundle :: "string \<Rightarrow> jsval"
  provideVatSlogger :: "string \<Rightarrow> bool \<Rightarrow> string \<Rightarrow> jsval \<Rightarrow> jsval \<Rightarrow> jsval \<Rightarrow> bool"
  vatManagerFactory :: "string \<Rightarrow> jsobj \<Rightarrow> 't handler \<Rightarrow> string + 'm"

definition allowedDynamicOptions :: "string list" where
  "allowedDynamicOptions =
     [''description'', ''meterID'', ''managerType'', ''enableSetup'', ''enablePipelining'',
      ''virtualObjectCacheSize'', ''useTranscript'', ''reapInterval'']"

definition allowedStaticOptions :: "string list" where
  "allowedStaticOptions =
     [''description'', ''name'', ''managerType'', ''enableDisavow'', ''enableSetup'',
      ''enablePipelining'', ''virtualObjectCacheSize'', ''useTranscript'', ''reapInterval'']"

text \<open>
  Modelled from the spec: \<^verbatim>\<open>assertKnownOptions\<close> is imported from
  \<^verbatim>\<open>lib/assertOptions.js\<close>, which is not among the sources.  The specification says
  that an option key outside the allowed set fails the creation with
  \<open>InvalidOptionError\<close>; the keys are visited in the order of \<^verbatim>\<open>Object.keys\<close>, and
  \<open>None\<close> means that the assertion passed.
\<close>

fun assertKnownOptions :: "jsobj \<Rightarrow> string list \<Rightarrow> error option" where
  "assertKnownOptions [] knownNames = None"
| "assertKnownOptions (p # rest) knownNames =
     (if fst p \<in> set knownNames then assertKnownOptions rest knownNames
      else Some (InvalidOptionError (fst p)))"

text \<open>
  The first part of \<^verbatim>\<open>create\<close>: the assertion on the descriptor and the chain that
  picks the bundle and its description.
\<close>

definition lookup_source ::
  "('t, 'm) stuff \<Rightarrow> sourceOfBundle \<Rightarrow> 't event list \<Rightarrow> (error + jsval \<times> string) \<times> 't event list" where
  "lookup_source env src tr =
     (if \<not> (src_bundle src \<noteq> None \<or> src_bundleName src \<noteq> None \<or> src_bundleID src \<noteq> None)
      then (Inl InvalidSourceError, tr)
      else case src_bundle src of
        Some b \<Rightarrow> (Inr (b, ''from source bundle''), tr)
      | None \<Rightarrow>
         (case src_bundleName src of
            Some n \<Rightarrow>
              (let vatSourceBundle = getNamedBundle env n; tr1 = tr @ [GetNamedBundle n]
               in if \<not> truthy vatSourceBundle
                  then (Inl (UnknownBundleError (''unknown bundle name '' @ n)), tr1)
                  else (Inr (vatSourceBundle, ''from bundleName: '' @ n), tr1))
          | None \<Rightarrow>
             (case src_bundleID src of
                Some i \<Rightarrow>
                  (let vatSourceBundle = getBundle env i; tr1 = tr @ [GetBundle i]
                   in if \<not> truthy vatSourceBundle
                      then (Inl (UnknownBundleError (''unknown bundleID '' @ i)), tr1)
                      else (Inr (vatSourceBundle, ''from bundleID: '' @ i), tr1))
              | None \<Rightarrow> (Inl UnknownSourceDescriptor, tr))))"

text \<open>The object literal \<^verbatim>\<open>managerOptions\<close> of \<^verbatim>\<open>create\<close>.\<close>

definition create_managerOptions :: "jsobj \<Rightarrow> string \<Rightarrow> jsval \<Rightarrow> jsobj \<Rightarrow> jsobj" where
  "create_managerOptions overrides vatID vatSourceBundle options =
     (let meterID = get_prop options ''meterID'';
          managerType = get_prop options ''managerType'';
          enableSetup = with_default (get_prop options ''enableSetup'') (JBool False);
          enableDisavow = with_default (get_prop options ''enableDisavow'') (JBool False);
          enablePipelining = with_default (get_prop options ''enablePipelining'') (JBool False);
          virtualObjectCacheSize = get_prop options ''virtualObjectCacheSize'';
          useTranscript = with_default (get_prop options ''useTranscript'') (JBool True);
          name = get_prop options ''name''
      in spread overrides
           [(''managerType'', managerType),
            (''bundle'', vatSourceBundle),
            (''metered'', JBool (truthy meterID)),
            (''enableDisavow'', enableDisavow),
            (''enableSetup'', enableSetup),
            (''enablePipelining'', enablePipelining),
            (''sourcedConsole'', JConsole vatID),
            (''virtualObjectCacheSize'', virtualObjectCacheSize),
            (''useTranscript'', useTranscript),
            (''name'', name)])"

text \<open>
  \<^verbatim>\<open>create\<close>, the path shared by the creating operations.  It is an \<^verbatim>\<open>async\<close>
  function: every failure inside it rejects the promise it returns (\<open>Inl\<close>).
\<close>

definition create ::
  "('t, 'm) stuff \<Rightarrow> string \<Rightarrow> sourceOfBundle \<Rightarrow> 't \<Rightarrow> jsobj \<Rightarrow> bool \<Rightarrow> 't event list
     \<Rightarrow> (error + 'm) \<times> 't event list" where
  "create env vatID src translators options isDynamic tr =
     (case lookup_source env src tr of
        (Inl e, tr1) \<Rightarrow> (Inl e, tr1)
      | (Inr (vatSourceBundle, sourceDesc), tr1) \<Rightarrow>
          if typeof vatSourceBundle \<noteq> ''object'' then (Inl BundleTypeError, tr1)
          else
            (case assertKnownOptions options
                    (if isDynamic then allowedDynamicOptions else allowedStaticOptions) of
               Some e \<Rightarrow> (Inl e, tr1)
             | None \<Rightarrow>
                (let managerType = get_prop options ''managerType'';
                     name = get_prop options ''name'';
                     description =
                       trim (to_string (js_or (get_prop options ''description'') (JStr []))
                             @ '' ('' @ sourceDesc @ '')'');
                     starting =
                       provideVatSlogger env vatID isDynamic description name
                         vatSourceBundle managerType;
                     tr2 = tr1 @ [ProvideVatSlogger vatID isDynamic description name
                                    vatSourceBundle managerType];
                     managerOptions =
                       create_managerOptions (overrideVatManagerOptions env) vatID
                         vatSourceBundle options;
                     tr3 = tr2 @ [MakeSourcedConsole vatID];
                     vatSyscallHandler = VatSyscallHandler vatID translators;
                     tr4 = tr3 @ [BuildVatSyscallHandler vatID translators];
                     tr5 = (if starting then tr4 @ [SlogStartup vatID] else tr4);
                     tr6 = tr5 @ [VatManagerFactory vatID managerOptions vatSyscallHandler]
                 in case vatManagerFactory env vatID managerOptions vatSyscallHandler of
                      Inl reason \<Rightarrow> (Inl (ManagerFactoryError reason), tr6)
                    | Inr manager \<Rightarrow>
                        (Inr manager, if starting then tr6 @ [SlogFinish vatID] else tr6))))"

text \<open>
  \<^verbatim>\<open>createVatDynamically\<close>; \<open>None\<close> for the options is the omitted argument, which
  defaults to the empty object.
\<close>

definition createVatDynamically ::
  "('t, 'm) stuff \<Rightarrow> string \<Rightarrow> sourceOfBundle \<Rightarrow> 't \<Rightarrow> jsobj option \<Rightarrow> 't event list
     \<Rightarrow> (error + 'm) \<times> 't event list" where
  "createVatDynamically env vatID src translators dynamicOptions tr =
     (if \<not> truthy (vatAdminRootKref env) then (Inl PreconditionError, tr)
      else create env vatID src translators
             (case dynamicOptions of None \<Rightarrow> [] | Some opts \<Rightarrow> opts) True tr)"

text \<open>The \<^verbatim>\<open>.catch\<close> handler of the two recreating operations: panic, then throw again.\<close>

definition panic_and_rethrow ::
  "string \<Rightarrow> (error + 'm) \<times> 't event list \<Rightarrow> (error + 'm) \<times> 't event list" where
  "panic_and_rethrow vatID r =
     (case r of
        (Inl err, tr1) \<Rightarrow> (Inl err, tr1 @ [Panic (''unable to re-create vat '' @ vatID) err])
      | (Inr manager, tr1) \<Rightarrow> (Inr manager, tr1))"

definition recreateDynamicVat ::
  "('t, 'm) stuff \<Rightarrow> string \<Rightarrow> sourceOfBundle \<Rightarrow> 't \<Rightarrow> jsobj \<Rightarrow> 't event list
     \<Rightarrow> (error + 'm) \<times> 't event list" where
  "recreateDynamicVat env vatID src translators dynamicOptions tr =
     panic_and_rethrow vatID (create env vatID src translators dynamicOptions True tr)"

definition recreateStaticVat ::
  "('t, 'm) stuff \<Rightarrow> string \<Rightarrow> sourceOfBundle \<Rightarrow> 't \<Rightarrow> jsobj \<Rightarrow> 't event list
     \<Rightarrow> (error + 'm) \<times> 't event list" where
  "recreateStaticVat env vatID src translators staticOptions tr =
     panic_and_rethrow vatID (create env vatID src translators staticOptions False tr)"

text \<open>The object literal \<^verbatim>\<open>managerOptions\<close> of \<^verbatim>\<open>loadTestVat\<close>.\<close>

definition loadTestVat_managerOptions :: "jsobj \<Rightarrow> jsval \<Rightarrow> jsobj \<Rightarrow> jsobj" where
  "loadTestVat_managerOptions overrides setup creationOptions =
     spread overrides
       (set_prop ''useTranscript'' (JBool True)
         (set_prop ''managerType'' (JStr ''local'')
           (set_prop ''enableSetup'' (JBool True)
             (set_prop ''setup'' setup
               (spread creationOptions [])))))"

definition loadTestVat ::
  "('t, 'm) stuff \<Rightarrow> string \<Rightarrow> jsval \<Rightarrow> 't \<Rightarrow> jsobj \<Rightarrow> 't event list
     \<Rightarrow> (error + 'm) \<times> 't event list" where
  "loadTestVat env vatID setup translators creationOptions tr =
     (let managerOptions =
            loadTestVat_managerOptions (overrideVatManagerOptions env) setup creationOptions;
          vatSyscallHandler = VatSyscallHandler vatID translators;
          tr1 = tr @ [BuildVatSyscallHandler vatID translators];
          tr2 = tr1 @ [VatManagerFactory vatID managerOptions vatSyscallHandler]
      in case vatManagerFactory env vatID managerOptions vatSyscallHandler of
           Inl reason \<Rightarrow> (Inl (ManagerFactoryError reason), tr2)
         | Inr manager \<Rightarrow> (Inr manager, tr2))"

text \<open>Reading the state: the options of the manager-factory calls, and the keeper's lookups.\<close>

definition factory_options :: "'t event list \<Rightarrow> jsobj list" where
  "factory_options tr =
     concat (map (\<lambda>e. case e of VatManagerFactory v mo h \<Rightarrow> [mo] | _ \<Rightarrow> []) tr)"


subsection \<open>Two concrete loaders\<close>

text \<open>
  A loader whose keeper knows the bundle named \<^verbatim>\<open>zcf\<close> and the bundle ID \<^verbatim>\<open>b1-abc\<close>,
  with the admin capability set and no overrides; its manager factory answers with the
  vatID.  The second loader has no admin capability and overrides three manager options.
\<close>

definition ex_stuff :: "(unit, string) stuff" where
  "ex_stuff =
     \<lparr> overrideVatManagerOptions = [],
       vatAdminRootKref = JStr ''ko20'',
       getNamedBundle = (\<lambda>n. if n = ''zcf'' then JObj [(''moduleFormat'', JStr ''getExport'')]
                               else JUndefined),
       getBundle = (\<lambda>i. if i = ''b1-abc'' then JObj [(''moduleFormat'', JStr ''endoZipBase64'')]
                          else JUndefined),
       provideVatSlogger = (\<lambda>vatID isDynamic description name b managerType. True),
       vatManagerFactory = (\<lambda>vatID managerOptions h. Inr vatID) \<rparr>"

definition ex_stuff_override :: "(unit, string) stuff" where
  "ex_stuff_override =
     ex_stuff \<lparr> overrideVatManagerOptions :=
                  [(''managerType'', JStr ''xs-worker''), (''metered'', JBool False),
                   (''consensusMode'', JBool True)],
                vatAdminRootKref := JUndefined \<rparr>"

definition ex_bundle :: jsval where
  "ex_bundle = JObj [(''moduleFormat'', JStr ''getExport''), (''source'', JStr ''...'')]"

section \<open>The kernel: cranks, transcripts, meters and restart\<close>

























subsection \<open>A concrete kernel\<close>








section \<open>Properties of objects and of option validation\<close>

lemma map_of_rev_overwrite:
  "map_of (rev (map (\<lambda>p. if fst p = k then (k, v) else p) obj)) k'
     = (if k' = k then (if k \<in> fst ` set obj then Some v else None) else map_of (rev obj) k')"
  by (induction obj) (auto simp: map_add_def split: option.splits)

lemma has_prop_iff: "has_prop k obj \<longleftrightarrow> k \<in> fst ` set obj"
  by (simp add: has_prop_def keys_def)

lemma get_prop_set_prop:
  "get_prop (set_prop k v obj) k' = (if k' = k then v else get_prop obj k')"
proof (cases "has_prop k obj")
  case True
  then have "k \<in> fst ` set obj" by (simp add: has_prop_iff)
  with True show ?thesis
    by (simp add: get_prop_def set_prop_def map_of_rev_overwrite)
next
  case False
  then show ?thesis
    by (simp add: get_prop_def set_prop_def map_add_def)
qed

lemma has_prop_set_prop:
  "has_prop k' (set_prop k v obj) = (k' = k \<or> has_prop k' obj)"
proof (cases "has_prop k obj")
  case True
  have "fst ` set (map (\<lambda>p. if fst p = k then (k, v) else p) obj) = fst ` set obj"
    by (induction obj) auto
  with True show ?thesis
    by (auto simp: has_prop_iff set_prop_def)
next
  case False
  then show ?thesis
    by (auto simp: has_prop_iff set_prop_def)
qed

lemma has_prop_spread:
  "has_prop k (spread src dst) = (has_prop k src \<or> has_prop k dst)"
proof (induction src arbitrary: dst)
  case Nil
  show ?case by (simp add: has_prop_iff)
next
  case (Cons p src)
  show ?case
    by (auto simp: Cons.IH has_prop_set_prop) (auto simp: has_prop_iff)
qed

lemma get_prop_spread:
  "get_prop (spread src dst) k = (if has_prop k src then get_prop src k else get_prop dst k)"
proof (induction src arbitrary: dst rule: rev_induct)
  case Nil
  show ?case by (simp add: has_prop_iff)
next
  case (snoc p src)
  have sp: "spread (src @ [p]) dst = set_prop (fst p) (snd p) (spread src dst)" for dst
    by (induction src arbitrary: dst) simp_all
  have l: "get_prop (spread (src @ [p]) dst) k
             = (if k = fst p then snd p else get_prop (spread src dst) k)"
    by (simp add: sp get_prop_set_prop)
  have r: "get_prop (src @ [p]) k = (if k = fst p then snd p else get_prop src k)"
    by (cases p) (simp add: get_prop_def)
  have h: "has_prop k (src @ [p]) = (k = fst p \<or> has_prop k src)"
    by (auto simp: has_prop_iff)
  show ?case
    by (simp add: l r h snoc.IH)
qed


lemma assertKnownOptions_Some:
  "assertKnownOptions opts ks = Some e \<Longrightarrow>
     \<exists>k. e = InvalidOptionError k \<and> k \<in> set (keys opts) \<and> k \<notin> set ks"
  by (induction opts) (auto simp: keys_def split: if_splits)

lemma factory_options_append:
  "factory_options (tr @ tr') = factory_options tr @ factory_options tr'"
  by (simp add: factory_options_def)


lemma lookup_source_factory_options:
  "factory_options (snd (lookup_source env src tr)) = factory_options tr"
  by (auto simp: lookup_source_def Let_def factory_options_def split: option.splits)

lemma lookup_source_not_InvalidSource:
  "\<not> (src_bundle src = None \<and> src_bundleName src = None \<and> src_bundleID src = None) \<Longrightarrow>
     fst (lookup_source env src tr) \<noteq> Inl InvalidSourceError"
  by (auto simp: lookup_source_def Let_def split: option.splits)

section \<open>Properties of the vat loader\<close>

lemma get_prop_absent: "\<not> has_prop k obj \<Longrightarrow> get_prop obj k = JUndefined"
proof -
  assume "\<not> has_prop k obj"
  then have "map_of (rev obj) k = None"
    by (simp add: has_prop_iff map_of_eq_None_iff)
  then show ?thesis
    by (simp add: get_prop_def)
qed

lemma has_prop_Nil: "\<not> has_prop k []"
  by (simp add: has_prop_iff)

lemma create_not_InvalidSource:
  assumes "\<not> (src_bundle src = None \<and> src_bundleName src = None \<and> src_bundleID src = None)"
  shows "fst (create env vatID src t opts isDynamic tr) \<noteq> Inl InvalidSourceError"
proof -
  have "fst (lookup_source env src tr) \<noteq> Inl InvalidSourceError"
    using assms by (rule lookup_source_not_InvalidSource)
  moreover have "assertKnownOptions opts ks \<noteq> Some InvalidSourceError" for ks
    using assertKnownOptions_Some [of opts ks InvalidSourceError] by auto
  ultimately show ?thesis
    by (auto simp: create_def Let_def split: prod.splits sum.splits option.splits)
qed




lemma create_managerOptions_metered:
  "get_prop (create_managerOptions ovr vatID b opts) ''metered''
     = (if has_prop ''metered'' ovr then get_prop ovr ''metered''
        else JBool (truthy (get_prop opts ''meterID'')))"
  by (simp add: create_managerOptions_def Let_def get_prop_spread) (simp add: get_prop_def)

lemma create_calls_factory:
  assumes "lookup_source env src tr = (Inr (b, d), tr')"
    and "typeof b = ''object''"
    and "assertKnownOptions opts (if isDynamic then allowedDynamicOptions else allowedStaticOptions)
           = None"
  shows "factory_options (snd (create env vatID src t opts isDynamic tr))
           = factory_options tr
             @ [create_managerOptions (overrideVatManagerOptions env) vatID b opts]"
proof -
  have "factory_options tr' = factory_options tr"
    using assms(1) lookup_source_factory_options [of env src tr] by simp
  then show ?thesis
    using assms
    by (auto simp: create_def Let_def factory_options_def split: sum.splits)
qed

lemma loadTestVat_trace:
  "snd (loadTestVat env vatID setupFn t copts tr)
     = tr @ [BuildVatSyscallHandler vatID t,
             VatManagerFactory vatID
               (loadTestVat_managerOptions (overrideVatManagerOptions env) setupFn copts)
               (VatSyscallHandler vatID t)]"
  by (simp add: loadTestVat_def Let_def split: sum.splits)

lemma loadTestVat_managerOptions_get:
  "get_prop (loadTestVat_managerOptions ovr setupFn copts) k
     = (if has_prop k ovr then get_prop ovr k
        else if k = ''useTranscript'' then JBool True
        else if k = ''managerType'' then JStr ''local''
        else if k = ''enableSetup'' then JBool True
        else if k = ''setup'' then setupFn
        else get_prop copts k)"
  by (simp add: loadTestVat_managerOptions_def get_prop_spread get_prop_set_prop get_prop_absent
        has_prop_Nil)

lemma loadTestVat_managerOptions_has:
  "has_prop k (loadTestVat_managerOptions ovr setupFn copts)
     \<longleftrightarrow> has_prop k ovr \<or> k \<in> {''useTranscript'', ''managerType'', ''enableSetup'', ''setup''}
          \<or> has_prop k copts"
  by (auto simp: loadTestVat_managerOptions_def has_prop_spread has_prop_set_prop)
     (simp_all add: has_prop_def keys_def)




lemma ex_create_unknown_name:
  "create ex_stuff ''v7'' \<lparr> src_bundle = None, src_bundleName = Some ''zoe'', src_bundleID = None \<rparr>
      () [] isDynamic []
     = (Inl (UnknownBundleError ''unknown bundle name zoe''), [GetNamedBundle ''zoe''])"
  by (simp add: create_def lookup_source_def ex_stuff_def)

lemma ex_lookup_zcf:
  "lookup_source ex_stuff_override
      \<lparr> src_bundle = None, src_bundleName = Some ''zcf'', src_bundleID = None \<rparr> []
     = (Inr (JObj [(''moduleFormat'', JStr ''getExport'')], ''from bundleName: zcf''),
        [GetNamedBundle ''zcf''])"
  by (simp add: lookup_source_def ex_stuff_override_def ex_stuff_def)

subsection \<open>The forms of a source descriptor\<close>

text \<open>
  A descriptor with two forms (an inline bundle and a bundle name) is not rejected: the
  creation succeeds.
\<close>

theorem create_two_forms_counterexample:
  "fst (create ex_stuff ''v1''
          \<lparr> src_bundle = Some ex_bundle, src_bundleName = Some ''zcf'', src_bundleID = None \<rparr>
          () [] True [])
     = Inr ''v1''"
  by (simp add: create_def lookup_source_def ex_stuff_def ex_bundle_def Let_def)

text \<open>
  C2 (single form of source), as the code has it.  A source descriptor with none of
  \<^verbatim>\<open>bundle\<close>, \<^verbatim>\<open>bundleName\<close>, \<^verbatim>\<open>bundleID\<close> fails the creation with
  \<open>InvalidSourceError\<close> before any collaborator is called (the state is unchanged).  A
  descriptor with one form or more is never rejected with \<open>InvalidSourceError\<close>: at least
  one form, not exactly one, must be present for the creation to proceed.
\<close>

theorem create_source_forms:
  "(src_bundle src = None \<and> src_bundleName src = None \<and> src_bundleID src = None \<longrightarrow>
      create env vatID src t opts isDynamic tr = (Inl InvalidSourceError, tr))
   \<and> (\<not> (src_bundle src = None \<and> src_bundleName src = None \<and> src_bundleID src = None) \<longrightarrow>
      fst (create env vatID src t opts isDynamic tr) \<noteq> Inl InvalidSourceError)"
proof (intro conjI impI)
  assume "src_bundle src = None \<and> src_bundleName src = None \<and> src_bundleID src = None"
  then show "create env vatID src t opts isDynamic tr = (Inl InvalidSourceError, tr)"
    by (simp add: create_def lookup_source_def)
next
  assume "\<not> (src_bundle src = None \<and> src_bundleName src = None \<and> src_bundleID src = None)"
  then show "fst (create env vatID src t opts isDynamic tr) \<noteq> Inl InvalidSourceError"
    by (rule create_not_InvalidSource)
qed

theorem create_source_forms_witness:
  "create ex_stuff ''v1'' \<lparr> src_bundle = None, src_bundleName = None, src_bundleID = None \<rparr>
       () [] True [GetBundle ''b0'']
     = (Inl InvalidSourceError, [GetBundle ''b0''])
   \<and> fst (create ex_stuff ''v1''
            \<lparr> src_bundle = Some ex_bundle, src_bundleName = Some ''zcf'', src_bundleID = None \<rparr>
            () [] True [])
       \<noteq> Inl InvalidSourceError"
  using create_source_forms
          [of "\<lparr> src_bundle = None, src_bundleName = None, src_bundleID = None \<rparr>"
              ex_stuff "''v1''" "()" "[]" True "[GetBundle ''b0'']"]
        create_source_forms
          [of "\<lparr> src_bundle = Some ex_bundle, src_bundleName = Some ''zcf'', src_bundleID = None \<rparr>"
              ex_stuff "''v1''" "()" "[]" True "[]"]
  by simp

subsection \<open>Unknown option keys\<close>




subsection \<open>The admin precondition\<close>

text \<open>
  C4 (admin precondition).  When \<^verbatim>\<open>vatAdminRootKref\<close> is absent (falsy),
  \<^verbatim>\<open>createVatDynamically\<close> fails with \<open>PreconditionError\<close> and the state is unchanged:
  no collaborator was called.  When it is present, the call is the shared creation path
  with the dynamic kind, on the options given (the empty object when omitted).
\<close>

theorem createVatDynamically_admin_precondition:
  "(\<not> truthy (vatAdminRootKref env) \<longrightarrow>
      createVatDynamically env vatID src t dynamicOptions tr = (Inl PreconditionError, tr))
   \<and> (truthy (vatAdminRootKref env) \<longrightarrow>
      createVatDynamically env vatID src t dynamicOptions tr
        = create env vatID src t (case dynamicOptions of None \<Rightarrow> [] | Some opts \<Rightarrow> opts) True tr)"
  by (simp add: createVatDynamically_def)

theorem createVatDynamically_admin_precondition_witness:
  "\<not> truthy (vatAdminRootKref ex_stuff_override)
   \<and> createVatDynamically ex_stuff_override ''v3''
        \<lparr> src_bundle = Some ex_bundle, src_bundleName = None, src_bundleID = None \<rparr> () None
        [GetBundle ''b0'']
      = (Inl PreconditionError, [GetBundle ''b0''])
   \<and> truthy (vatAdminRootKref ex_stuff)
   \<and> createVatDynamically ex_stuff ''v3''
        \<lparr> src_bundle = Some ex_bundle, src_bundleName = None, src_bundleID = None \<rparr> () None []
      = create ex_stuff ''v3''
        \<lparr> src_bundle = Some ex_bundle, src_bundleName = None, src_bundleID = None \<rparr> () [] True []"
proof -
  have a: "\<not> truthy (vatAdminRootKref ex_stuff_override)"
    by (simp add: ex_stuff_override_def)
  have b: "truthy (vatAdminRootKref ex_stuff)"
    by (simp add: ex_stuff_def)
  show ?thesis
    using a b
      createVatDynamically_admin_precondition [where env = ex_stuff_override and vatID = "''v3''"
        and src = "\<lparr> src_bundle = Some ex_bundle, src_bundleName = None, src_bundleID = None \<rparr>"
        and t = "()" and dynamicOptions = None and tr = "[GetBundle ''b0'']"]
      createVatDynamically_admin_precondition [where env = ex_stuff and vatID = "''v3''"
        and src = "\<lparr> src_bundle = Some ex_bundle, src_bundleName = None, src_bundleID = None \<rparr>"
        and t = "()" and dynamicOptions = None and tr = "[]"]
    by simp
qed

subsection \<open>Recreation failures\<close>

text \<open>
  C5 (recreation failure is fatal).  When the underlying creation fails with an error,
  whatever it is, \<^verbatim>\<open>recreateDynamicVat\<close> and \<^verbatim>\<open>recreateStaticVat\<close> call \<^verbatim>\<open>panic\<close>
  with the message \<^verbatim>\<open>unable to re-create vat <vatID>\<close> and that error, after everything
  the creation did, and then fail with the same error.
\<close>

theorem recreate_failure_panics:
  "(create env vatID src t opts True tr = (Inl err, tr') \<longrightarrow>
      recreateDynamicVat env vatID src t opts tr
        = (Inl err, tr' @ [Panic (''unable to re-create vat '' @ vatID) err]))
   \<and> (create env vatID src t opts False tr = (Inl err, tr') \<longrightarrow>
      recreateStaticVat env vatID src t opts tr
        = (Inl err, tr' @ [Panic (''unable to re-create vat '' @ vatID) err]))"
  by (simp add: recreateDynamicVat_def recreateStaticVat_def panic_and_rethrow_def)

theorem recreate_failure_panics_witness:
  "recreateDynamicVat ex_stuff ''v7''
      \<lparr> src_bundle = None, src_bundleName = Some ''zoe'', src_bundleID = None \<rparr> () [] []
     = (Inl (UnknownBundleError ''unknown bundle name zoe''),
        [GetNamedBundle ''zoe'',
         Panic ''unable to re-create vat v7'' (UnknownBundleError ''unknown bundle name zoe'')])
   \<and> recreateStaticVat ex_stuff ''v7''
      \<lparr> src_bundle = None, src_bundleName = Some ''zoe'', src_bundleID = None \<rparr> () [] []
     = (Inl (UnknownBundleError ''unknown bundle name zoe''),
        [GetNamedBundle ''zoe'',
         Panic ''unable to re-create vat v7'' (UnknownBundleError ''unknown bundle name zoe'')])"
  using recreate_failure_panics [where env = ex_stuff and vatID = "''v7''" and t = "()"
          and src = "\<lparr> src_bundle = None, src_bundleName = Some ''zoe'', src_bundleID = None \<rparr>"
          and opts = "[]" and tr = "[]" and tr' = "[GetNamedBundle ''zoe'']"
          and err = "UnknownBundleError ''unknown bundle name zoe''"]
        ex_create_unknown_name
  by simp

subsection \<open>Unknown bundles\<close>

text \<open>
  C6 (unknown bundle).  When the single form of the descriptor is a \<^verbatim>\<open>bundleName\<close> (or a
  \<^verbatim>\<open>bundleID\<close>) for which the keeper's \<^verbatim>\<open>getNamedBundle\<close> (or \<^verbatim>\<open>getBundle\<close>)
  answers nothing (a falsy value), the creation fails with \<open>UnknownBundleError\<close>; the
  keeper's lookup is the only collaborator call, so no manager is constructed.
\<close>

theorem unknown_bundle_fails:
  "(src_bundle src = None \<and> src_bundleName src = Some n \<and> src_bundleID src = None
      \<and> \<not> truthy (getNamedBundle env n) \<longrightarrow>
      create env vatID src t opts isDynamic tr
        = (Inl (UnknownBundleError (''unknown bundle name '' @ n)), tr @ [GetNamedBundle n])
      \<and> factory_options (snd (create env vatID src t opts isDynamic tr)) = factory_options tr)
   \<and> (src_bundle src = None \<and> src_bundleName src = None \<and> src_bundleID src = Some i
      \<and> \<not> truthy (getBundle env i) \<longrightarrow>
      create env vatID src t opts isDynamic tr
        = (Inl (UnknownBundleError (''unknown bundleID '' @ i)), tr @ [GetBundle i])
      \<and> factory_options (snd (create env vatID src t opts isDynamic tr)) = factory_options tr)"
  by (simp add: create_def lookup_source_def factory_options_def)

theorem unknown_bundle_fails_witness:
  "\<not> truthy (getNamedBundle ex_stuff ''zoe'')
   \<and> create ex_stuff ''v4''
        \<lparr> src_bundle = None, src_bundleName = Some ''zoe'', src_bundleID = None \<rparr> () [] True []
      = (Inl (UnknownBundleError ''unknown bundle name zoe''), [GetNamedBundle ''zoe''])
   \<and> \<not> truthy (getBundle ex_stuff ''b1-def'')
   \<and> create ex_stuff ''v4''
        \<lparr> src_bundle = None, src_bundleName = None, src_bundleID = Some ''b1-def'' \<rparr> () [] False []
      = (Inl (UnknownBundleError ''unknown bundleID b1-def''), [GetBundle ''b1-def''])"
proof -
  have a: "\<not> truthy (getNamedBundle ex_stuff ''zoe'')"
    by (simp add: ex_stuff_def)
  have b: "\<not> truthy (getBundle ex_stuff ''b1-def'')"
    by (simp add: ex_stuff_def)
  show ?thesis
    using a b
      unknown_bundle_fails [where env = ex_stuff and vatID = "''v4''" and t = "()" and n = "''zoe''"
        and src = "\<lparr> src_bundle = None, src_bundleName = Some ''zoe'', src_bundleID = None \<rparr>"
        and opts = "[]" and isDynamic = True and tr = "[]"]
      unknown_bundle_fails [where env = ex_stuff and vatID = "''v4''" and t = "()" and i = "''b1-def''"
        and src = "\<lparr> src_bundle = None, src_bundleName = None, src_bundleID = Some ''b1-def'' \<rparr>"
        and opts = "[]" and isDynamic = False and tr = "[]"]
    by simp
qed

subsection \<open>The composed manager options\<close>

text \<open>
  An empty-string \<^verbatim>\<open>meterID\<close> is accepted as a dynamic option and is not null, but the
  manager options of the factory call have \<^verbatim>\<open>metered\<close> false.
\<close>

theorem metered_counterexample:
  "assertKnownOptions [(''meterID'', JStr [])] allowedDynamicOptions = None
   \<and> get_prop [(''meterID'', JStr [])] ''meterID'' \<noteq> JNull
   \<and> get_prop [(''meterID'', JStr [])] ''meterID'' \<noteq> JUndefined
   \<and> map (\<lambda>mo. get_prop mo ''metered'')
        (factory_options (snd (create ex_stuff ''v1''
           \<lparr> src_bundle = Some ex_bundle, src_bundleName = None, src_bundleID = None \<rparr> ()
           [(''meterID'', JStr [])] True [])))
      = [JBool False]"
  by (simp add: create_def lookup_source_def ex_stuff_def ex_bundle_def Let_def
        allowedDynamicOptions_def factory_options_def create_managerOptions_def get_prop_def)

text \<open>
  C7 (manager options), as the code has it.  When the source resolves to a bundle object
  and the options bag is accepted, the manager factory is called with the composed
  options, in which the admin-level overrides are applied last: every key of the overrides
  has the override's value, whatever the caller asked for.  Unless the overrides supply
  \<^verbatim>\<open>metered\<close>, the metered flag is the truthiness of \<^verbatim>\<open>meterID\<close> (\<^verbatim>\<open>!!meterID\<close>): an
  absent, undefined, null, empty, zero or false \<^verbatim>\<open>meterID\<close> gives an unmetered vat.
\<close>

theorem managerOptions_metered_and_overrides:
  "lookup_source env src tr = (Inr (b, d), tr')
   \<and> typeof b = ''object''
   \<and> assertKnownOptions opts (if isDynamic then allowedDynamicOptions else allowedStaticOptions)
       = None \<longrightarrow>
   factory_options (snd (create env vatID src t opts isDynamic tr))
     = factory_options tr @ [create_managerOptions (overrideVatManagerOptions env) vatID b opts]
   \<and> (\<forall>k. has_prop k (overrideVatManagerOptions env) \<longrightarrow>
          get_prop (create_managerOptions (overrideVatManagerOptions env) vatID b opts) k
            = get_prop (overrideVatManagerOptions env) k)
   \<and> (\<not> has_prop ''metered'' (overrideVatManagerOptions env) \<longrightarrow>
          get_prop (create_managerOptions (overrideVatManagerOptions env) vatID b opts) ''metered''
            = JBool (truthy (get_prop opts ''meterID'')))"
proof (intro impI conjI allI)
  assume a: "lookup_source env src tr = (Inr (b, d), tr')
   \<and> typeof b = ''object''
   \<and> assertKnownOptions opts (if isDynamic then allowedDynamicOptions else allowedStaticOptions)
       = None"
  then show "factory_options (snd (create env vatID src t opts isDynamic tr))
     = factory_options tr @ [create_managerOptions (overrideVatManagerOptions env) vatID b opts]"
    by (simp add: create_calls_factory)
next
  fix k
  assume "has_prop k (overrideVatManagerOptions env)"
  then show "get_prop (create_managerOptions (overrideVatManagerOptions env) vatID b opts) k
            = get_prop (overrideVatManagerOptions env) k"
    by (simp add: create_managerOptions_def Let_def get_prop_spread)
next
  assume "\<not> has_prop ''metered'' (overrideVatManagerOptions env)"
  then show "get_prop (create_managerOptions (overrideVatManagerOptions env) vatID b opts) ''metered''
            = JBool (truthy (get_prop opts ''meterID''))"
    by (simp add: create_managerOptions_metered)
qed

lemma ex_lookup_inline:
  "lookup_source ex_stuff
      \<lparr> src_bundle = Some ex_bundle, src_bundleName = None, src_bundleID = None \<rparr> []
     = (Inr (ex_bundle, ''from source bundle''), [])"
  by (simp add: lookup_source_def)

theorem managerOptions_metered_and_overrides_witness:
  "map (\<lambda>mo. (get_prop mo ''metered'', get_prop mo ''managerType'', get_prop mo ''consensusMode''))
     (factory_options (snd (create ex_stuff_override ''v5''
        \<lparr> src_bundle = None, src_bundleName = Some ''zcf'', src_bundleID = None \<rparr> ()
        [(''meterID'', JStr ''m1''), (''managerType'', JStr ''local'')] True [])))
     = [(JBool False, JStr ''xs-worker'', JBool True)]
   \<and> map (\<lambda>mo. get_prop mo ''metered'')
     (factory_options (snd (create ex_stuff ''v5''
        \<lparr> src_bundle = Some ex_bundle, src_bundleName = None, src_bundleID = None \<rparr> ()
        [(''meterID'', JStr ''m1''), (''managerType'', JStr ''local'')] True [])))
     = [JBool True]"
proof -
  have ok: "assertKnownOptions [(''meterID'', JStr ''m1''), (''managerType'', JStr ''local'')]
              (if True then allowedDynamicOptions else allowedStaticOptions) = None"
    by (simp add: allowedDynamicOptions_def)
  have ty: "typeof (JObj [(''moduleFormat'', JStr ''getExport'')]) = ''object''"
           "typeof ex_bundle = ''object''"
    by (simp_all add: ex_bundle_def)
  have ovr: "overrideVatManagerOptions ex_stuff_override
               = [(''managerType'', JStr ''xs-worker''), (''metered'', JBool False),
                  (''consensusMode'', JBool True)]"
    by (simp add: ex_stuff_override_def)
  have h: "has_prop ''metered'' (overrideVatManagerOptions ex_stuff_override)"
          "has_prop ''managerType'' (overrideVatManagerOptions ex_stuff_override)"
          "has_prop ''consensusMode'' (overrideVatManagerOptions ex_stuff_override)"
    by (simp_all add: ovr has_prop_def keys_def)
  have g: "get_prop (overrideVatManagerOptions ex_stuff_override) ''metered'' = JBool False"
          "get_prop (overrideVatManagerOptions ex_stuff_override) ''managerType'' = JStr ''xs-worker''"
          "get_prop (overrideVatManagerOptions ex_stuff_override) ''consensusMode'' = JBool True"
    by (simp_all add: ovr get_prop_def)
  have n: "\<not> has_prop ''metered'' (overrideVatManagerOptions ex_stuff)"
    by (simp add: ex_stuff_def has_prop_def keys_def)
  have m: "truthy (get_prop [(''meterID'', JStr ''m1''), (''managerType'', JStr ''local'')] ''meterID'')"
    by (simp add: get_prop_def)
  have one: "map (\<lambda>mo. (get_prop mo ''metered'', get_prop mo ''managerType'',
                         get_prop mo ''consensusMode''))
     (factory_options (snd (create ex_stuff_override ''v5''
        \<lparr> src_bundle = None, src_bundleName = Some ''zcf'', src_bundleID = None \<rparr> ()
        [(''meterID'', JStr ''m1''), (''managerType'', JStr ''local'')] True [])))
     = [(JBool False, JStr ''xs-worker'', JBool True)]"
    using managerOptions_metered_and_overrides [where env = ex_stuff_override and vatID = "''v5''"
        and src = "\<lparr> src_bundle = None, src_bundleName = Some ''zcf'', src_bundleID = None \<rparr>"
        and t = "()" and tr = "[]" and isDynamic = True
        and opts = "[(''meterID'', JStr ''m1''), (''managerType'', JStr ''local'')]"
        and b = "JObj [(''moduleFormat'', JStr ''getExport'')]" and d = "''from bundleName: zcf''"
        and tr' = "[GetNamedBundle ''zcf'']"]
      ex_lookup_zcf ok ty h g
    by (simp add: factory_options_def)
  have two: "map (\<lambda>mo. get_prop mo ''metered'')
     (factory_options (snd (create ex_stuff ''v5''
        \<lparr> src_bundle = Some ex_bundle, src_bundleName = None, src_bundleID = None \<rparr> ()
        [(''meterID'', JStr ''m1''), (''managerType'', JStr ''local'')] True [])))
     = [JBool True]"
    using managerOptions_metered_and_overrides [where env = ex_stuff and vatID = "''v5''"
        and src = "\<lparr> src_bundle = Some ex_bundle, src_bundleName = None, src_bundleID = None \<rparr>"
        and t = "()" and tr = "[]" and isDynamic = True
        and opts = "[(''meterID'', JStr ''m1''), (''managerType'', JStr ''local'')]"
        and b = ex_bundle and d = "''from source bundle''" and tr' = "[]"]
      ex_lookup_inline ok ty n m
    by (simp add: factory_options_def)
  from one two show ?thesis by simp
qed

subsection \<open>The forced options of loadTestVat\<close>

text \<open>
  With the admin-level override \<^verbatim>\<open>managerType: 'xs-worker'\<close>, the manager options of
  \<^verbatim>\<open>loadTestVat\<close> do not have \<^verbatim>\<open>managerType\<close> \<^verbatim>\<open>'local'\<close>.
\<close>

theorem loadTestVat_override_counterexample:
  "map (\<lambda>mo. get_prop mo ''managerType'')
     (factory_options (snd (loadTestVat ex_stuff_override ''v1'' (JFun ''function setup() {}'')
                              () [] [])))
     = [JStr ''xs-worker'']"
  by (simp add: loadTestVat_def Let_def factory_options_def loadTestVat_managerOptions_def
        ex_stuff_override_def ex_stuff_def set_prop_def has_prop_def keys_def get_prop_def)

text \<open>
  C8 (\<^verbatim>\<open>loadTestVat\<close>), as the code has it.  \<^verbatim>\<open>loadTestVat\<close> calls
  \<^verbatim>\<open>buildVatSyscallHandler\<close> and the manager factory and nothing else (no bundle is
  resolved).  The manager options of the factory call have \<^verbatim>\<open>enableSetup\<close> true,
  \<^verbatim>\<open>managerType\<close> \<^verbatim>\<open>'local'\<close>, \<^verbatim>\<open>useTranscript\<close> true and the caller's setup
  function as \<^verbatim>\<open>setup\<close>, whatever \<^verbatim>\<open>creationOptions\<close> holds, except for the keys that
  the admin-level overrides supply: those are applied last and have the override's value.
\<close>

theorem loadTestVat_forced_options:
  "snd (loadTestVat env vatID setupFn t copts tr)
     = tr @ [BuildVatSyscallHandler vatID t,
             VatManagerFactory vatID
               (loadTestVat_managerOptions (overrideVatManagerOptions env) setupFn copts)
               (VatSyscallHandler vatID t)]
   \<and> (\<not> has_prop ''enableSetup'' (overrideVatManagerOptions env) \<longrightarrow>
        get_prop (loadTestVat_managerOptions (overrideVatManagerOptions env) setupFn copts)
          ''enableSetup'' = JBool True)
   \<and> (\<not> has_prop ''managerType'' (overrideVatManagerOptions env) \<longrightarrow>
        get_prop (loadTestVat_managerOptions (overrideVatManagerOptions env) setupFn copts)
          ''managerType'' = JStr ''local'')
   \<and> (\<not> has_prop ''useTranscript'' (overrideVatManagerOptions env) \<longrightarrow>
        get_prop (loadTestVat_managerOptions (overrideVatManagerOptions env) setupFn copts)
          ''useTranscript'' = JBool True)
   \<and> (\<not> has_prop ''setup'' (overrideVatManagerOptions env) \<longrightarrow>
        get_prop (loadTestVat_managerOptions (overrideVatManagerOptions env) setupFn copts)
          ''setup'' = setupFn)
   \<and> (\<forall>k. has_prop k (overrideVatManagerOptions env) \<longrightarrow>
        get_prop (loadTestVat_managerOptions (overrideVatManagerOptions env) setupFn copts) k
          = get_prop (overrideVatManagerOptions env) k)"
  by (simp add: loadTestVat_trace loadTestVat_managerOptions_get)

theorem loadTestVat_forced_options_witness:
  "map (\<lambda>k. get_prop (loadTestVat_managerOptions (overrideVatManagerOptions ex_stuff)
                         (JFun ''function setup() {}'')
                         [(''enableSetup'', JBool False), (''managerType'', JStr ''xs-worker''),
                          (''useTranscript'', JBool False), (''setup'', JNull)]) k)
     [''enableSetup'', ''managerType'', ''useTranscript'', ''setup'']
     = [JBool True, JStr ''local'', JBool True, JFun ''function setup() {}'']
   \<and> get_prop (loadTestVat_managerOptions (overrideVatManagerOptions ex_stuff_override)
                 (JFun ''function setup() {}'') [(''managerType'', JStr ''local'')]) ''managerType''
     = JStr ''xs-worker''"
proof -
  have n: "\<not> has_prop k (overrideVatManagerOptions ex_stuff)" for k
    by (simp add: ex_stuff_def has_prop_def keys_def)
  have h: "has_prop ''managerType'' (overrideVatManagerOptions ex_stuff_override)"
    by (simp add: ex_stuff_override_def has_prop_def keys_def)
  have g: "get_prop (overrideVatManagerOptions ex_stuff_override) ''managerType'' = JStr ''xs-worker''"
    by (simp add: ex_stuff_override_def get_prop_def)
  show ?thesis
    using n h g
      loadTestVat_forced_options [where env = ex_stuff and setupFn = "JFun ''function setup() {}''"
        and copts = "[(''enableSetup'', JBool False), (''managerType'', JStr ''xs-worker''),
                      (''useTranscript'', JBool False), (''setup'', JNull)]"]
      loadTestVat_forced_options [where env = ex_stuff_override
        and setupFn = "JFun ''function setup() {}''" and copts = "[(''managerType'', JStr ''local'')]"]
    by simp
qed

subsection \<open>Precedence of the source forms\<close>




subsection \<open>loadTestVat validates no option\<close>

text \<open>
  C10 (\<^verbatim>\<open>loadTestVat\<close> validates no option).  \<^verbatim>\<open>loadTestVat\<close> never fails with
  \<open>InvalidOptionError\<close>; every key of \<^verbatim>\<open>creationOptions\<close> is a key of the manager options
  handed to the manager factory, with the caller's value unless the key is one of the four
  forced ones or is supplied by the admin-level overrides.
\<close>

theorem loadTestVat_no_validation:
  "(\<forall>name. fst (loadTestVat env vatID setupFn t copts tr) \<noteq> Inl (InvalidOptionError name))
   \<and> factory_options (snd (loadTestVat env vatID setupFn t copts tr))
       = factory_options tr
         @ [loadTestVat_managerOptions (overrideVatManagerOptions env) setupFn copts]
   \<and> (\<forall>k. has_prop k copts \<longrightarrow>
          has_prop k (loadTestVat_managerOptions (overrideVatManagerOptions env) setupFn copts))
   \<and> (\<forall>k. has_prop k copts
          \<and> k \<notin> {''setup'', ''enableSetup'', ''managerType'', ''useTranscript''}
          \<and> \<not> has_prop k (overrideVatManagerOptions env) \<longrightarrow>
          get_prop (loadTestVat_managerOptions (overrideVatManagerOptions env) setupFn copts) k
            = get_prop copts k)"
proof (intro conjI allI impI)
  fix name
  show "fst (loadTestVat env vatID setupFn t copts tr) \<noteq> Inl (InvalidOptionError name)"
    by (simp add: loadTestVat_def Let_def split: sum.splits)
next
  show "factory_options (snd (loadTestVat env vatID setupFn t copts tr))
       = factory_options tr
         @ [loadTestVat_managerOptions (overrideVatManagerOptions env) setupFn copts]"
    by (simp add: loadTestVat_trace factory_options_def)
next
  fix k
  assume "has_prop k copts"
  then show "has_prop k (loadTestVat_managerOptions (overrideVatManagerOptions env) setupFn copts)"
    by (simp add: loadTestVat_managerOptions_has)
next
  fix k
  assume "has_prop k copts
          \<and> k \<notin> {''setup'', ''enableSetup'', ''managerType'', ''useTranscript''}
          \<and> \<not> has_prop k (overrideVatManagerOptions env)"
  then show "get_prop (loadTestVat_managerOptions (overrideVatManagerOptions env) setupFn copts) k
            = get_prop copts k"
    by (simp add: loadTestVat_managerOptions_get)
qed

theorem loadTestVat_no_validation_witness:
  "has_prop ''meterID'' [(''meterID'', JStr ''m1''), (''color'', JStr ''red'')]
   \<and> ''meterID'' \<notin> set allowedStaticOptions
   \<and> ''color'' \<notin> set allowedDynamicOptions
   \<and> fst (loadTestVat ex_stuff ''v8'' (JFun ''function setup() {}'') ()
            [(''meterID'', JStr ''m1''), (''color'', JStr ''red'')] [])
       \<noteq> Inl (InvalidOptionError ''meterID'')
   \<and> has_prop ''meterID''
        (loadTestVat_managerOptions (overrideVatManagerOptions ex_stuff)
           (JFun ''function setup() {}'') [(''meterID'', JStr ''m1''), (''color'', JStr ''red'')])
   \<and> get_prop
        (loadTestVat_managerOptions (overrideVatManagerOptions ex_stuff)
           (JFun ''function setup() {}'') [(''meterID'', JStr ''m1''), (''color'', JStr ''red'')])
        ''color'' = JStr ''red''"
proof -
  have h: "has_prop ''meterID'' [(''meterID'', JStr ''m1''), (''color'', JStr ''red'')]"
          "has_prop ''color'' [(''meterID'', JStr ''m1''), (''color'', JStr ''red'')]"
    by (simp_all add: has_prop_def keys_def)
  have n: "\<not> has_prop ''color'' (overrideVatManagerOptions ex_stuff)"
    by (simp add: ex_stuff_def has_prop_def keys_def)
  have g: "get_prop [(''meterID'', JStr ''m1''), (''color'', JStr ''red'')] ''color'' = JStr ''red''"
    by (simp add: get_prop_def)
  have a: "''meterID'' \<notin> set allowedStaticOptions" "''color'' \<notin> set allowedDynamicOptions"
    by (simp_all add: allowedStaticOptions_def allowedDynamicOptions_def)
  show ?thesis
    using h n g a
      loadTestVat_no_validation [where env = ex_stuff and vatID = "''v8''" and t = "()"
        and setupFn = "JFun ''function setup() {}''" and tr = "[]"
        and copts = "[(''meterID'', JStr ''m1''), (''color'', JStr ''red'')]"]
    by simp
qed

section \<open>Replay equivalence\<close>


























subsection \<open>The concrete kernel, evaluated\<close>











end
